theory Spec2Isabelle
  imports Complex_Main "HOL-Library.Monad_Syntax"
begin

section \<open>Numbers and vectors\<close>

text \<open>
  The program computes in \<^verbatim>\<open>float\<close> and \<^verbatim>\<open>double\<close>. They are modelled as
  real numbers with exact arithmetic, and the constant \<^verbatim>\<open>M_PI\<close> as \<open>pi\<close>. A division
  whose divisor is zero has no real value (the machine result is an infinity or a NaN):
  it is the value \<open>None\<close>, and so is everything computed from it.
\<close>

definition M_PI :: real where
  "M_PI = pi"

definition fdiv :: "real \<Rightarrow> real \<Rightarrow> real option" where
  "fdiv a b = (if b = 0 then None else Some (a / b))"

type_synonym vec2 = "real \<times> real"

type_synonym ivec2 = "int \<times> int"

datatype vec4 = Vec4 real real real real

fun vec4_add :: "vec4 \<Rightarrow> vec4 \<Rightarrow> vec4" where
  "vec4_add (Vec4 a b c d) (Vec4 x y z w) = Vec4 (a + x) (b + y) (c + z) (d + w)"

fun vec4_scale :: "real \<Rightarrow> vec4 \<Rightarrow> vec4" where
  "vec4_scale s (Vec4 x y z w) = Vec4 (s * x) (s * y) (s * z) (s * w)"

text \<open>A 4x4 matrix is stored by columns, as \<^verbatim>\<open>mat4x4\<close> of linmath.h and \<^verbatim>\<open>mat4\<close> of GLSL are.\<close>

datatype mat4x4 = Mat4 vec4 vec4 vec4 vec4

fun mat4x4_mul_vec4 :: "mat4x4 \<Rightarrow> vec4 \<Rightarrow> vec4" where
  "mat4x4_mul_vec4 (Mat4 c0 c1 c2 c3) (Vec4 x y z w) =
     vec4_add (vec4_add (vec4_add (vec4_scale x c0) (vec4_scale y c1)) (vec4_scale z c2))
       (vec4_scale w c3)"

section \<open>The shaders\<close>

subsection \<open>Vertex shader\<close>

text \<open>
  \<^verbatim>\<open>gl_Position = MVP * vec4(vPos, 0.0, 1.0);\<close>
  The uniform is \<open>None\<close> when the host computed it through a division by zero.
\<close>

definition vertex_main :: "mat4x4 option \<Rightarrow> vec2 \<Rightarrow> vec4 option" where
  "vertex_main MVP vPos = do {
     m \<leftarrow> MVP;
     Some (mat4x4_mul_vec4 m (Vec4 (fst vPos) (snd vPos) 0 1))
   }"

subsection \<open>Geometry shader\<close>

text \<open>\<^verbatim>\<open>layout(triangle_strip, max_vertices=96) out;\<close>\<close>

definition max_vertices :: nat where
  "max_vertices = 96"

text \<open>\<^verbatim>\<open>float xs = 1.0*Resolution.y/Resolution.x;\<close>\<close>

definition aspect_correction :: "ivec2 \<Rightarrow> real option" where
  "aspect_correction Resolution = fdiv (1.0 * real_of_int (snd Resolution)) (real_of_int (fst Resolution))"

text \<open>
  The rim vertex of step \<open>j\<close>:
  \<^verbatim>\<open>
  float theta = j*(2*M_PI/n);
  float st = sin(theta);
  float ct = cos(theta);
  gl_Position = gl_in[i].gl_Position + vec4(d*ct*xs, d*st, 0,0);
  \<close>
\<close>

definition rim_vertex :: "real \<Rightarrow> int \<Rightarrow> real option \<Rightarrow> vec4 option \<Rightarrow> int \<Rightarrow> vec4 option" where
  "rim_vertex d n xs pos j = do {
     step \<leftarrow> fdiv (2 * M_PI) (real_of_int n);
     let theta = real_of_int j * step;
     let st = sin theta;
     let ct = cos theta;
     x \<leftarrow> xs;
     p \<leftarrow> pos;
     Some (vec4_add p (Vec4 (d * ct * x) (d * st) 0 0))
   }"

text \<open>
  The inner loop \<^verbatim>\<open>for (int j=0; j<n+2; j++)\<close>. The last argument is the strip emitted so
  far; every \<^verbatim>\<open>EmitVertex()\<close> appends the current \<^verbatim>\<open>gl_Position\<close> to it.
\<close>

function geom_loop_j :: "real \<Rightarrow> int \<Rightarrow> real option \<Rightarrow> vec4 option \<Rightarrow> int \<Rightarrow> vec4 option list
    \<Rightarrow> vec4 option list" where
  "geom_loop_j d n xs pos j strip =
     (if j < n + 2 then
        geom_loop_j d n xs pos (j + 1)
          ((if j mod 2 = 0 then strip @ [pos] else strip) @ [rim_vertex d n xs pos j])
      else strip)"
  by pat_completeness auto
termination
  by (relation "measure (\<lambda>(d, n, xs, pos, j, strip). nat (n + 2 - j))") auto

text \<open>
  The outer loop \<^verbatim>\<open>for (int i=0; i<gl_in.length(); ++i)\<close>; \<^verbatim>\<open>EndPrimitive()\<close> closes the
  strip of input vertex \<open>i\<close>. The result is the list of strips, in emission order.
\<close>

function geom_loop_i :: "real \<Rightarrow> int \<Rightarrow> real option \<Rightarrow> vec4 option list \<Rightarrow> int
    \<Rightarrow> vec4 option list list \<Rightarrow> vec4 option list list" where
  "geom_loop_i d n xs gl_in i strips =
     (if i < int (length gl_in) then
        geom_loop_i d n xs gl_in (i + 1)
          (strips @ [geom_loop_j d n xs (gl_in ! nat i) 0 []])
      else strips)"
  by pat_completeness auto
termination
  by (relation "measure (\<lambda>(d, n, xs, gl_in, i, strips). nat (int (length gl_in) - i))") auto

text \<open>
  \<^verbatim>\<open>void main()\<close> of the geometry shader, with its constants \<^verbatim>\<open>d = 0.01\<close> and \<^verbatim>\<open>n = 8\<close>.
  With \<^verbatim>\<open>layout(points) in\<close> the array \<^verbatim>\<open>gl_in\<close> has one element.
\<close>

definition geom_main :: "ivec2 \<Rightarrow> vec4 option list \<Rightarrow> vec4 option list list" where
  "geom_main Resolution gl_in =
     (let d = 0.01;
          n = 8;
          xs = aspect_correction Resolution
      in geom_loop_i d n xs gl_in 0 [])"

text \<open>The vertices one invocation of the geometry shader emits, over all its strips.\<close>

definition emitted_vertices :: "ivec2 \<Rightarrow> vec4 option \<Rightarrow> vec4 option list" where
  "emitted_vertices Resolution pos = concat (geom_main Resolution [pos])"

text \<open>
  What a draw call \<^verbatim>\<open>glDrawArrays(GL_POINTS, 0, count)\<close> sends through the two stages:
  for each of the first \<open>count\<close> points of the bound buffer, the vertices the geometry
  shader emits for it.
\<close>

definition gpu_draw :: "mat4x4 option \<Rightarrow> ivec2 \<Rightarrow> vec2 list \<Rightarrow> nat \<Rightarrow> vec4 option list list" where
  "gpu_draw MVP Resolution buffer count =
     map (\<lambda>vPos. emitted_vertices Resolution (vertex_main MVP vPos)) (take count buffer)"

section \<open>The platform\<close>

text \<open>
  The C library, the C++ library, GLFW and the OpenGL driver are not part of the program.
  What the program reads from the libraries' random sources is fixed by the platform:
  \<^item> \<open>RAND_MAX\<close>, and the value \<open>rand_from_seed seed k\<close> that call number \<open>k\<close> of
    \<^verbatim>\<open>rand()\<close> returns after \<^verbatim>\<open>srand(seed)\<close>; a process starts as after \<^verbatim>\<open>srand(1)\<close>;
  \<^item> the seed \<open>default_seed\<close> of a default-constructed \<^verbatim>\<open>default_random_engine\<close>, and the
    value \<open>normal_from_seed seed mean stddev k\<close> that draw number \<open>k\<close> of a
    \<^verbatim>\<open>normal_distribution<double>(mean, stddev)\<close> returns on an engine constructed from
    \<open>seed\<close> that nothing else draws from.
\<close>

record platform =
  RAND_MAX :: int
  rand_from_seed :: "nat \<Rightarrow> nat \<Rightarrow> int"
  default_seed :: nat
  normal_from_seed :: "nat \<Rightarrow> real \<Rightarrow> real \<Rightarrow> nat \<Rightarrow> real"

text \<open>The state of a random source: its seed and the number of values drawn so far.\<close>

type_synonym rng = "nat \<times> nat"

datatype shader_type =
    GL_VERTEX_SHADER
  | GL_FRAGMENT_SHADER
  | GL_GEOMETRY_SHADER
  | GL_TESS_CONTROL_SHADER
  | GL_TESS_EVALUATION_SHADER
  | GL_COMPUTE_SHADER

text \<open>The OpenGL and buffer-swap calls the program issues, with the data they carry.\<close>

datatype gl_call =
    GlEnable_BLEND
  | GlBlendFunc
  | GlGenBuffers
  | GlBindBuffer
  | GlBufferData "vec2 list"
  | GlCreateShader shader_type
  | GlShaderSource shader_type string
  | GlCompileShader shader_type
  | GlCreateProgram
  | GlAttachShader shader_type
  | GlLinkProgram
  | GlEnableVertexAttribArray
  | GlVertexAttribPointer
  | GlViewport int int
  | GlClear
  | GlUseProgram
  | GlUniformMatrix4fv "mat4x4 option"
  | GlUniform2i int int
  | GlDrawArrays nat
  | GlfwSwapBuffers

text \<open>
  The events \<^verbatim>\<open>glfwPollEvents()\<close> delivers: a key, a new window size, a refresh request,
  a close request, and an error report of GLFW.
\<close>

datatype event =
    KeyEvent int int int int
  | WindowSizeEvent int int
  | WindowRefreshEvent
  | WindowCloseEvent
  | ErrorEvent int string

text \<open>
  What one iteration of the frame loop reads from outside: the framebuffer size, the two
  readings of \<^verbatim>\<open>glfwGetTime()\<close> and the events of \<^verbatim>\<open>glfwPollEvents()\<close>.
\<close>

record iter_input =
  fb_size :: "int \<times> int"
  time_frame :: real
  time_fps :: real
  events :: "event list"

text \<open>
  What one run of the process reads from outside. \<open>gl_compile\<close> is the driver's compiler:
  the compile status and the info log of a shader source.
\<close>

record run_env =
  glfw_init_ok :: bool
  window_ok :: bool
  gl_compile :: "shader_type \<Rightarrow> string \<Rightarrow> int \<times> string"
  time_start :: real
  iterations :: "iter_input list"

definition GLFW_KEY_ESCAPE :: int where
  "GLFW_KEY_ESCAPE = 256"

definition GLFW_PRESS :: int where
  "GLFW_PRESS = 1"

definition GLFW_TRUE :: int where
  "GLFW_TRUE = 1"

definition GL_FALSE :: int where
  "GL_FALSE = 0"

definition EXIT_SUCCESS :: int where
  "EXIT_SUCCESS = 0"

definition EXIT_FAILURE :: int where
  "EXIT_FAILURE = 1"

section \<open>The program state\<close>

text \<open>
  The globals of the program (\<open>vertices\<close>, \<open>gWidth\<close>, \<open>gHeight\<close>, \<open>need_redraw\<close>), the two
  locals of \<^verbatim>\<open>main\<close> that live across frames, the state of \<^verbatim>\<open>rand()\<close>, the close flag of
  the window, the calls issued so far (oldest first) and what was written to stderr.
  Output on stdout (the progress counter and the FPS line) is not modelled.
\<close>

record state =
  vertices :: "vec2 list"
  gWidth :: int
  gHeight :: int
  need_redraw :: bool
  frameCount :: int
  previousTime :: real
  libc_rand :: rng
  should_close :: bool
  gl_calls :: "gl_call list"
  stderr :: string

definition initial_state :: state where
  "initial_state =
     \<lparr> vertices = [], gWidth = 640, gHeight = 480, need_redraw = True,
       frameCount = 0, previousTime = 0, libc_rand = (1, 0), should_close = False,
       gl_calls = [], stderr = [] \<rparr>"

text \<open>How a run ends: \<^verbatim>\<open>exit(code)\<close>, an uncaught exception, or still in the frame loop.\<close>

datatype outcome = Exited int | Aborted | Running

text \<open>The exit status the parent process sees.\<close>

definition exit_status :: "int \<Rightarrow> int" where
  "exit_status code = code mod 256"

definition gl :: "gl_call list \<Rightarrow> state \<Rightarrow> state" where
  "gl calls st = st\<lparr>gl_calls := gl_calls st @ calls\<rparr>"

section \<open>Sampler\<close>

definition rand :: "platform \<Rightarrow> rng \<Rightarrow> int \<times> rng" where
  "rand pf s = (rand_from_seed pf (fst s) (snd s), (fst s, Suc (snd s)))"

text \<open>\<^verbatim>\<open>return 1.0*rand()/RAND_MAX;\<close> (\<open>RAND_MAX\<close> is at least 32767.)\<close>

definition urand :: "platform \<Rightarrow> rng \<Rightarrow> real \<times> rng" where
  "urand pf s =
     (let (k, s') = rand pf s
      in (1.0 * real_of_int k / real_of_int (RAND_MAX pf), s'))"

text \<open>\<^verbatim>\<open>distribution(generator)\<close>\<close>

definition distribution_draw :: "platform \<Rightarrow> real \<Rightarrow> real \<Rightarrow> rng \<Rightarrow> real \<times> rng" where
  "distribution_draw pf mean stddev g =
     (normal_from_seed pf (fst g) mean stddev (snd g), (fst g, Suc (snd g)))"

text \<open>
  The loop \<^verbatim>\<open>for (int i=0; i<(int)vertices.size(); i++)\<close> over the buffer, the engine and
  the state of \<^verbatim>\<open>rand()\<close>.
\<close>

function generate_loop :: "platform \<Rightarrow> real \<Rightarrow> real \<Rightarrow> int \<Rightarrow> vec2 list \<times> rng \<times> rng
    \<Rightarrow> vec2 list \<times> rng \<times> rng" where
  "generate_loop pf middle std i (vs, generator, rs) =
     (if i < int (length vs) then
        (let (r, generator') = distribution_draw pf middle std generator;
             (u, rs') = urand pf rs;
             theta = 2 * M_PI * u;
             x = r * cos theta;
             y = r * sin theta
         in generate_loop pf middle std (i + 1) (vs[nat i := (x, y)], generator', rs'))
      else (vs, generator, rs))"
  by pat_completeness auto
termination
  by (relation "measure (\<lambda>(pf, middle, std, i, vs, generator, rs). nat (int (length vs) - i))")
    auto

text \<open>\<^verbatim>\<open>vertices.resize(n)\<close>\<close>

definition resize :: "vec2 list \<Rightarrow> nat \<Rightarrow> vec2 list" where
  "resize vs n = take n vs @ replicate (n - length vs) (0, 0)"

text \<open>
  The body of \<^verbatim>\<open>generate_vertices\<close> for a point count \<open>n\<close> of type \<^verbatim>\<open>int\<close>. A negative
  count converts to a size beyond \<^verbatim>\<open>max_size()\<close>, and \<^verbatim>\<open>resize\<close> throws: the result is
  \<open>None\<close>.
\<close>

definition generate_vertices_n :: "platform \<Rightarrow> int \<Rightarrow> state \<Rightarrow> state option" where
  "generate_vertices_n pf n st =
     (let generator = (default_seed pf, 0);
          middle = 0.5;
          std = 0.08
      in if n < 0 then None
         else
           (let (vs, generator', rs) =
                  generate_loop pf middle std 0 (resize (vertices st) (nat n), generator, libc_rand st)
            in Some (st\<lparr>vertices := vs, libc_rand := rs\<rparr>)))"

text \<open>\<^verbatim>\<open>generate_vertices\<close> as the program has it: \<^verbatim>\<open>int n = 100000000;\<close>\<close>

definition generate_vertices :: "platform \<Rightarrow> state \<Rightarrow> state option" where
  "generate_vertices pf st = generate_vertices_n pf 100000000 st"

text \<open>
  The radius and the angle of point number \<open>i\<close> of a run: draw \<open>i\<close> of the
  default-seeded engine, and \<open>2 * M_PI\<close> times call \<open>i\<close> of \<^verbatim>\<open>urand()\<close> in a fresh process.
\<close>

definition point_radius :: "platform \<Rightarrow> nat \<Rightarrow> real" where
  "point_radius pf i = normal_from_seed pf (default_seed pf) 0.5 0.08 i"

definition point_theta :: "platform \<Rightarrow> nat \<Rightarrow> real" where
  "point_theta pf i = 2 * M_PI * fst (urand pf (1, i))"

section \<open>Shader compilation\<close>

definition vertex_shader_text :: string where
  "vertex_shader_text =
     ''#version 430 \<newline>'' @
     ''layout (location = 0) in vec2 vPos;\<newline>'' @
     ''uniform mat4 MVP;\<newline>'' @
     ''void main()\<newline>'' @
     ''{\<newline>'' @
     ''    gl_Position = MVP * vec4(vPos, 0.0, 1.0);\<newline>'' @
     ''}\<newline>''"

definition geom_shader_text :: string where
  "geom_shader_text =
     ''#version 430\<newline>'' @
     ''layout(points) in;\<newline>'' @
     ''layout(triangle_strip, max_vertices=96) out;\<newline>'' @
     ''uniform ivec2 Resolution;\<newline>'' @
     ''#define M_PI 3.1415926535897932384626433832795\<newline>'' @
     ''void main()\<newline>'' @
     ''{\<newline>'' @
     ''  float d = 0.01; // 0.01;\<newline>'' @
     ''  int n=8; // octogons\<newline>'' @
     ''  float xs = 1.0*Resolution.y/Resolution.x;\<newline>'' @
     ''  for (int i=0; i<gl_in.length(); ++i)\<newline>'' @
     ''  {\<newline>'' @
     ''    for (int j=0; j<n+2; j++)\<newline>'' @
     ''    {\<newline>'' @
     ''      if (j%2==0)\<newline>'' @
     ''      {\<newline>'' @
     ''        gl_Position = gl_in[i].gl_Position;\<newline>'' @
     ''        EmitVertex();\<newline>'' @
     ''      }\<newline>'' @
     ''      float theta = j*(2*M_PI/n);\<newline>'' @
     ''      float st = sin(theta);\<newline>'' @
     ''      float ct = cos(theta);\<newline>'' @
     ''      gl_Position = gl_in[i].gl_Position + vec4(d*ct*xs, d*st, 0,0);\<newline>'' @
     ''      EmitVertex();\<newline>'' @
     ''    }\<newline>'' @
     ''    EndPrimitive();\<newline>'' @
     ''  }\<newline>'' @
     ''}\<newline>''"

definition fragment_shader_text :: string where
  "fragment_shader_text =
     ''#version 430\<newline>'' @
     ''out vec4 fragColor;\<newline>'' @
     ''void main()\<newline>'' @
     ''{\<newline>'' @
     ''    vec3 color = vec3(1,0,0);\<newline>'' @
     ''    fragColor = vec4(color, 0.05);\<newline>'' @
     ''}\<newline>''"

text \<open>\<^verbatim>\<open>vfprintf\<close> for the one conversion the program uses, \<^verbatim>\<open>%s\<close>.\<close>

fun vformat :: "string \<Rightarrow> string list \<Rightarrow> string" where
  "vformat [] args = []"
| "vformat (c # rest) args =
     (case (rest, args) of
        (s # rest', a # args') \<Rightarrow>
          if c = CHR ''%'' \<and> s = CHR ''s'' then a @ vformat rest' args'
          else c # vformat rest args
      | _ \<Rightarrow> c # vformat rest args)"

text \<open>\<^verbatim>\<open>die\<close>: print the formatted message to stderr and \<^verbatim>\<open>exit(-1)\<close>.\<close>

definition die :: "string \<Rightarrow> string list \<Rightarrow> state \<Rightarrow> outcome \<times> state" where
  "die fmt ap st = (Exited (- 1), st\<lparr>stderr := stderr st @ vformat fmt ap\<rparr>)"

text \<open>
  \<^verbatim>\<open>compile_shader\<close>: \<open>Inl\<close> when the process ended in \<^verbatim>\<open>die\<close>, \<open>Inr\<close> when the shader
  compiled and the program goes on.
\<close>

definition compile_shader :: "run_env \<Rightarrow> shader_type \<Rightarrow> string \<Rightarrow> state
    \<Rightarrow> (outcome \<times> state) + state" where
  "compile_shader env shader_type source st =
     (let st1 = gl [GlCreateShader shader_type, GlShaderSource shader_type source,
                    GlCompileShader shader_type] st;
          (isCompiled, errorLog) = gl_compile env shader_type source
      in if isCompiled = GL_FALSE then
           (let shader_type_str =
                  (case shader_type of
                     GL_VERTEX_SHADER \<Rightarrow> ''vertex''
                   | GL_FRAGMENT_SHADER \<Rightarrow> ''fragment''
                   | _ \<Rightarrow> ''unknown type'')
            in Inl (die ''%s: %s\<newline>'' [shader_type_str, errorLog] st1))
         else Inr st1)"

section \<open>Callbacks\<close>

text \<open>\<^verbatim>\<open>fprintf(stderr, "Error: %s\n", description);\<close>\<close>

definition error_callback :: "state \<Rightarrow> int \<Rightarrow> string \<Rightarrow> state" where
  "error_callback st error description =
     st\<lparr>stderr := stderr st @ vformat ''Error: %s\<newline>'' [description]\<rparr>"

definition glfwSetWindowShouldClose :: "state \<Rightarrow> int \<Rightarrow> state" where
  "glfwSetWindowShouldClose st v = st\<lparr>should_close := (v \<noteq> 0)\<rparr>"

definition key_callback :: "state \<Rightarrow> int \<Rightarrow> int \<Rightarrow> int \<Rightarrow> int \<Rightarrow> state" where
  "key_callback st key scancode action mods =
     (if key = GLFW_KEY_ESCAPE \<and> action = GLFW_PRESS then glfwSetWindowShouldClose st GLFW_TRUE
      else st)"

definition window_size_callback :: "state \<Rightarrow> int \<Rightarrow> int \<Rightarrow> state" where
  "window_size_callback st width height =
     st\<lparr>gWidth := width, gHeight := height, need_redraw := True\<rparr>"

definition window_refresh_callback :: "state \<Rightarrow> state" where
  "window_refresh_callback st = (gl [GlfwSwapBuffers] st)\<lparr>need_redraw := True\<rparr>"

text \<open>
  The close request of the window system. The program installs no close callback; GLFW sets
  the close flag of the window itself.
\<close>

definition window_close_request :: "state \<Rightarrow> state" where
  "window_close_request st = glfwSetWindowShouldClose st GLFW_TRUE"

fun handle_event :: "state \<Rightarrow> event \<Rightarrow> state" where
  "handle_event st (KeyEvent key scancode action mods) = key_callback st key scancode action mods"
| "handle_event st (WindowSizeEvent width height) = window_size_callback st width height"
| "handle_event st WindowRefreshEvent = window_refresh_callback st"
| "handle_event st WindowCloseEvent = window_close_request st"
| "handle_event st (ErrorEvent error description) = error_callback st error description"

text \<open>\<^verbatim>\<open>glfwPollEvents()\<close>: the callbacks run in the order of the events.\<close>

definition glfwPollEvents :: "event list \<Rightarrow> state \<Rightarrow> state" where
  "glfwPollEvents evs st = foldl handle_event st evs"

section \<open>The transform\<close>

text \<open>
  linmath.h is not among the sources. Its four functions that \<^verbatim>\<open>main\<close> calls are modelled
  from section 4.2 of the specification (a rotation about the Z axis, an orthographic
  projection, their product), in the column-major layout of the library.
\<close>

text \<open>Modelled from the spec: \<^verbatim>\<open>mat4x4_identity\<close> of linmath.h, the identity matrix.\<close>

definition mat4x4_identity :: mat4x4 where
  "mat4x4_identity = Mat4 (Vec4 1 0 0 0) (Vec4 0 1 0 0) (Vec4 0 0 1 0) (Vec4 0 0 0 1)"

text \<open>
  Modelled from the spec: \<^verbatim>\<open>mat4x4_mul\<close> of linmath.h, the matrix product \<open>a \<times> b\<close>: column
  \<open>c\<close> of the product is \<open>a\<close> applied to column \<open>c\<close> of \<open>b\<close>.
\<close>

fun mat4x4_mul :: "mat4x4 \<Rightarrow> mat4x4 \<Rightarrow> mat4x4" where
  "mat4x4_mul a (Mat4 b0 b1 b2 b3) =
     Mat4 (mat4x4_mul_vec4 a b0) (mat4x4_mul_vec4 a b1) (mat4x4_mul_vec4 a b2)
       (mat4x4_mul_vec4 a b3)"

text \<open>
  Modelled from the spec: \<^verbatim>\<open>mat4x4_rotate_Z\<close> of linmath.h, the matrix \<open>M\<close> times the rotation
  about the Z axis by \<open>angle\<close> radians.
\<close>

definition mat4x4_rotate_Z :: "mat4x4 \<Rightarrow> real \<Rightarrow> mat4x4" where
  "mat4x4_rotate_Z M angle =
     (let s = sin angle;
          c = cos angle;
          R = Mat4 (Vec4 c s 0 0) (Vec4 (- s) c 0 0) (Vec4 0 0 1 0) (Vec4 0 0 0 1)
      in mat4x4_mul M R)"

text \<open>
  Modelled from the spec: \<^verbatim>\<open>mat4x4_ortho\<close> of linmath.h, the orthographic projection of the
  box \<open>[l, r] \<times> [b, t] \<times> [n, f]\<close>. Each entry with a quotient divides by an extent of the
  box; the matrix has no real value when one of them is zero.
\<close>

definition mat4x4_ortho :: "real \<Rightarrow> real \<Rightarrow> real \<Rightarrow> real \<Rightarrow> real \<Rightarrow> real \<Rightarrow> mat4x4 option" where
  "mat4x4_ortho l r b t n f = do {
     m00 \<leftarrow> fdiv 2 (r - l);
     m11 \<leftarrow> fdiv 2 (t - b);
     m22 \<leftarrow> fdiv (- 2) (f - n);
     m30 \<leftarrow> fdiv (- (r + l)) (r - l);
     m31 \<leftarrow> fdiv (- (t + b)) (t - b);
     m32 \<leftarrow> fdiv (- (f + n)) (f - n);
     Some (Mat4 (Vec4 m00 0 0 0) (Vec4 0 m11 0 0) (Vec4 0 0 m22 0) (Vec4 m30 m31 m32 1))
   }"

text \<open>
  The matrix of one frame, from the framebuffer size and the reading of \<^verbatim>\<open>glfwGetTime()\<close>:
  \<^verbatim>\<open>
  ratio = width / (float) height;
  mat4x4_identity(m);
  mat4x4_rotate_Z(m, m, (float) glfwGetTime());
  mat4x4_ortho(p, -ratio, ratio, -1.f, 1.f, 1.f, -1.f);
  mat4x4_mul(mvp, p, m);
  \<close>
\<close>

definition frame_mvp :: "int \<Rightarrow> int \<Rightarrow> real \<Rightarrow> mat4x4 option" where
  "frame_mvp width height time = do {
     ratio \<leftarrow> fdiv (real_of_int width) (real_of_int height);
     let m = mat4x4_identity;
     let m = mat4x4_rotate_Z m time;
     p \<leftarrow> mat4x4_ortho (- ratio) ratio (- 1) 1 1 (- 1);
     Some (mat4x4_mul p m)
   }"

section \<open>The frame loop\<close>

text \<open>The body of \<^verbatim>\<open>if (need_redraw)\<close>.\<close>

definition frame :: "iter_input \<Rightarrow> state \<Rightarrow> state" where
  "frame inp st =
     (let (width, height) = fb_size inp;
          mvp = frame_mvp width height (time_frame inp);
          st1 = gl [GlViewport width height, GlClear, GlUseProgram, GlUniformMatrix4fv mvp,
                    GlUniform2i (gWidth st) (gHeight st), GlDrawArrays (length (vertices st)),
                    GlfwSwapBuffers] st;
          currentTime = time_fps inp;
          st2 = (if currentTime - previousTime st1 \<ge> 1.0
                 then st1\<lparr>frameCount := 0, previousTime := currentTime\<rparr>
                 else st1)
      in st2\<lparr>frameCount := frameCount st2 + 1, need_redraw := True\<rparr>)"

text \<open>One pass through the body of the \<^verbatim>\<open>while\<close> loop.\<close>

definition iteration :: "iter_input \<Rightarrow> state \<Rightarrow> state" where
  "iteration inp st = glfwPollEvents (events inp) (if need_redraw st then frame inp st else st)"

text \<open>
  \<^verbatim>\<open>while (!glfwWindowShouldClose(window))\<close>, and after it \<^verbatim>\<open>exit(EXIT_SUCCESS)\<close>. The loop
  runs as long as the run supplies inputs; when they end with the flag still unset, the
  program is still in the loop.
\<close>

fun main_loop :: "state \<Rightarrow> iter_input list \<Rightarrow> outcome \<times> state" where
  "main_loop st [] = (if should_close st then (Exited EXIT_SUCCESS, st) else (Running, st))"
| "main_loop st (inp # rest) =
     (if should_close st then (Exited EXIT_SUCCESS, st)
      else main_loop (iteration inp st) rest)"

section \<open>The main program\<close>

text \<open>
  \<^verbatim>\<open>main\<close> up to the frame loop: \<open>Inl\<close> when the process ended before the loop, \<open>Inr\<close>
  with the state at the loop's first test otherwise.
\<close>

definition main_setup :: "platform \<Rightarrow> run_env \<Rightarrow> (outcome \<times> state) + state" where
  "main_setup pf env =
     (case generate_vertices pf initial_state of
        None \<Rightarrow> Inl (Aborted, initial_state)
      | Some st1 \<Rightarrow>
          if \<not> glfw_init_ok env then Inl (Exited EXIT_FAILURE, st1)
          else if \<not> window_ok env then Inl (Exited EXIT_FAILURE, st1)
          else
            (let st2 = gl [GlEnable_BLEND, GlBlendFunc, GlGenBuffers, GlBindBuffer,
                           GlBufferData (vertices st1)] st1
             in case compile_shader env GL_VERTEX_SHADER vertex_shader_text st2 of
                  Inl dead \<Rightarrow> Inl dead
                | Inr st3 \<Rightarrow>
                    (case compile_shader env GL_GEOMETRY_SHADER geom_shader_text st3 of
                       Inl dead \<Rightarrow> Inl dead
                     | Inr st4 \<Rightarrow>
                         (case compile_shader env GL_FRAGMENT_SHADER fragment_shader_text st4 of
                            Inl dead \<Rightarrow> Inl dead
                          | Inr st5 \<Rightarrow>
                              (let st6 = gl [GlCreateProgram, GlAttachShader GL_VERTEX_SHADER,
                                             GlAttachShader GL_GEOMETRY_SHADER,
                                             GlAttachShader GL_FRAGMENT_SHADER, GlLinkProgram,
                                             GlEnableVertexAttribArray, GlVertexAttribPointer] st5
                               in Inr (st6\<lparr>frameCount := 0,
                                          previousTime := time_start env\<rparr>))))))"

definition main :: "platform \<Rightarrow> run_env \<Rightarrow> outcome \<times> state" where
  "main pf env =
     (case main_setup pf env of
        Inl dead \<Rightarrow> dead
      | Inr st \<Rightarrow> main_loop st (iterations env))"

section \<open>Reading the calls\<close>

text \<open>The buffer uploads among a sequence of calls, oldest first.\<close>

fun uploads :: "gl_call list \<Rightarrow> vec2 list list" where
  "uploads [] = []"
| "uploads (GlBufferData d # cs) = d # uploads cs"
| "uploads (c # cs) = uploads cs"

text \<open>The matrices and the resolutions a sequence of calls sets the uniforms to, oldest first.\<close>

fun mvp_uniforms :: "gl_call list \<Rightarrow> mat4x4 option list" where
  "mvp_uniforms [] = []"
| "mvp_uniforms (GlUniformMatrix4fv m # cs) = m # mvp_uniforms cs"
| "mvp_uniforms (c # cs) = mvp_uniforms cs"

fun resolution_uniforms :: "gl_call list \<Rightarrow> ivec2 list" where
  "resolution_uniforms [] = []"
| "resolution_uniforms (GlUniform2i w h # cs) = (w, h) # resolution_uniforms cs"
| "resolution_uniforms (c # cs) = resolution_uniforms cs"

section \<open>Reference values\<close>

text \<open>
  Point number \<open>i\<close> as the algorithm describes it, and the sample the loop computes from
  draw \<open>a\<close> of an engine seeded with \<open>gseed\<close> and call \<open>b\<close> of \<^verbatim>\<open>rand()\<close> seeded with \<open>rseed\<close>.
\<close>

definition point_at :: "platform \<Rightarrow> nat \<Rightarrow> vec2" where
  "point_at pf i =
     (point_radius pf i * cos (point_theta pf i), point_radius pf i * sin (point_theta pf i))"

text \<open>The buffer the algorithm describes: the points number 0 to 99,999,999.\<close>

definition point_buffer :: "platform \<Rightarrow> vec2 list" where
  "point_buffer pf = map (point_at pf) [0..<100000000]"

definition sample :: "platform \<Rightarrow> real \<Rightarrow> real \<Rightarrow> nat \<Rightarrow> nat \<Rightarrow> nat \<Rightarrow> nat \<Rightarrow> vec2" where
  "sample pf middle std gseed rseed a b =
     (let r = normal_from_seed pf gseed middle std a;
          theta = 2 * M_PI * (real_of_int (rand_from_seed pf rseed b) / real_of_int (RAND_MAX pf))
      in (r * cos theta, r * sin theta))"

text \<open>
  The rotation about the Z axis by \<open>t\<close> radians and the orthographic projection that maps
  the horizontal extent \<open>[- ratio, ratio]\<close> and the vertical extent \<open>[- 1, 1]\<close> to the unit
  square, as matrices by columns.
\<close>

definition Rotation_Z :: "real \<Rightarrow> mat4x4" where
  "Rotation_Z t =
     Mat4 (Vec4 (cos t) (sin t) 0 0) (Vec4 (- sin t) (cos t) 0 0) (Vec4 0 0 1 0) (Vec4 0 0 0 1)"

definition Projection :: "real \<Rightarrow> mat4x4" where
  "Projection ratio =
     Mat4 (Vec4 (1 / ratio) 0 0 0) (Vec4 0 1 0 0) (Vec4 0 0 1 0) (Vec4 0 0 0 1)"

section \<open>Concrete platforms and runs\<close>

text \<open>
  A platform with the \<open>RAND_MAX\<close> of glibc, a \<^verbatim>\<open>rand()\<close> that stays in range, and a radius
  source that moves around the mean.
\<close>

definition example_platform :: platform where
  "example_platform =
     \<lparr> RAND_MAX = 2147483647,
       rand_from_seed = (\<lambda>seed k. (int seed * 16807 + int k * 48271) mod 2147483648),
       default_seed = 1,
       normal_from_seed = (\<lambda>seed mean stddev k. mean + stddev * (real ((seed + k) mod 7) - 3) / 3) \<rparr>"

text \<open>A platform whose \<^verbatim>\<open>rand()\<close> returns \<open>RAND_MAX\<close> on the first call of a process.\<close>

definition endpoint_platform :: platform where
  "endpoint_platform =
     \<lparr> RAND_MAX = 2147483647,
       rand_from_seed = (\<lambda>seed k. (2147483647 - (int seed - 1 + int k) * 16807) mod 2147483648),
       default_seed = 1,
       normal_from_seed = (\<lambda>seed mean stddev k. mean + stddev * (real ((seed + k) mod 7) - 3) / 3) \<rparr>"

text \<open>A frame on a 1024x768 framebuffer during which the Escape key is pressed.\<close>

definition escape_input :: iter_input where
  "escape_input =
     \<lparr> fb_size = (1024, 768), time_frame = 0, time_fps = 1 / 60,
       events = [KeyEvent GLFW_KEY_ESCAPE 9 GLFW_PRESS 0] \<rparr>"

text \<open>A frame while the window is minimised: the framebuffer is 0x0.\<close>

definition minimised_input :: iter_input where
  "minimised_input =
     \<lparr> fb_size = (0, 0), time_frame = 1, time_fps = 1 + 1 / 60, events = [] \<rparr>"

text \<open>A run in which everything succeeds and the user presses Escape in the first frame.\<close>

definition example_env :: run_env where
  "example_env =
     \<lparr> glfw_init_ok = True, window_ok = True,
       gl_compile = (\<lambda>shader_type source. (1, [])),
       time_start = 0,
       iterations = [escape_input] \<rparr>"

text \<open>
  Two runs on a driver that does not accept \<^verbatim>\<open>#version 430\<close>: one rejects every shader,
  one only the geometry shader.
\<close>

definition broken_shader_env :: run_env where
  "broken_shader_env =
     \<lparr> glfw_init_ok = True, window_ok = True,
       gl_compile = (\<lambda>shader_type source. (0, ''0(1) : error C0201: unsupported version 430'')),
       time_start = 0,
       iterations = [] \<rparr>"

definition geometry_broken_env :: run_env where
  "geometry_broken_env =
     \<lparr> glfw_init_ok = True, window_ok = True,
       gl_compile = (\<lambda>shader_type source.
          if shader_type = GL_GEOMETRY_SHADER
          then (0, ''0(1) : error C0201: unsupported version 430'')
          else (1, [])),
       time_start = 0,
       iterations = [] \<rparr>"

section \<open>Reading results\<close>

text \<open>The state in which the part of \<^verbatim>\<open>main\<close> before the frame loop ends.\<close>

definition state_after_setup :: "(outcome \<times> state) + state \<Rightarrow> state" where
  "state_after_setup r = (case r of Inl (oc, st) \<Rightarrow> st | Inr st \<Rightarrow> st)"

text \<open>
  When \<^verbatim>\<open>compile_shader\<close> ended the process: the exit status and what stderr holds.
\<close>

definition died :: "(outcome \<times> state) + state \<Rightarrow> (int \<times> string) option" where
  "died r =
     (case r of
        Inl (Exited code, st) \<Rightarrow> Some (exit_status code, stderr st)
      | _ \<Rightarrow> None)"

section \<open>The geometry stage\<close>

declare geom_loop_j.simps [simp del] geom_loop_i.simps [simp del] generate_loop.simps [simp del]

lemma geom_loop_j_eq:
  "geom_loop_j d n xs pos j strip =
     strip @ concat (map (\<lambda>k. (if k mod 2 = 0 then [pos] else []) @ [rim_vertex d n xs pos k])
                      [j..n + 1])"
proof (induction d n xs pos j strip rule: geom_loop_j.induct)
  case (1 d n xs pos j strip)
  show ?case
  proof (cases "j < n + 2")
    case True
    then have "[j..n + 1] = j # [j + 1..n + 1]"
      by (simp add: upto_rec1)
    then show ?thesis
      using True "1.IH" [OF True] by (subst geom_loop_j.simps) simp
  next
    case False
    then have "[j..n + 1] = []" by simp
    then show ?thesis using False by (subst geom_loop_j.simps) simp
  qed
qed

lemma length_geom_loop_j:
  "int (length (geom_loop_j d n xs pos j strip)) =
     int (length strip) +
     (if j < n + 2 then (n + 2 - j) + ((n + 3) div 2 - (j + 1) div 2) else 0)"
proof (induction d n xs pos j strip rule: geom_loop_j.induct)
  case (1 d n xs pos j strip)
  show ?case
  proof (cases "j < n + 2")
    case True
    have step: "(j + 2) div 2 = (j + 1) div 2 + (if j mod 2 = 0 then 1 else 0)"
      by presburger
    show ?thesis
      using True "1.IH" [OF True] step
      by (subst geom_loop_j.simps) (auto; presburger)
  next
    case False
    then show ?thesis by (subst geom_loop_j.simps) simp
  qed
qed

lemma geom_main_single:
  "geom_main Resolution [pos] = [geom_loop_j 0.01 8 (aspect_correction Resolution) pos 0 []]"
  by (simp add: geom_main_def geom_loop_i.simps)

lemma upto_0_9: "[0..9::int] = [0, 1, 2, 3, 4, 5, 6, 7, 8, 9]"
  by (simp add: upto_rec1)

lemma emitted_vertices_eq:
  "emitted_vertices Resolution pos =
     concat (map (\<lambda>k. (if k mod 2 = 0 then [pos] else []) @
                        [rim_vertex 0.01 8 (aspect_correction Resolution) pos k]) [0..9])"
  by (simp add: emitted_vertices_def geom_main_single geom_loop_j_eq)

lemma length_emitted_vertices: "length (emitted_vertices Resolution pos) = 15"
  by (simp add: emitted_vertices_eq upto_0_9)

lemma rim_closing: "rim_vertex d 8 xs pos 8 = rim_vertex d 8 xs pos 0"
  by (simp add: rim_vertex_def fdiv_def M_PI_def)

text \<open>
  C1, as stated: with the polygon order \<open>n = 8\<close> the geometry stage emits exactly
  \<open>n + 2 = 10\<close> vertices for an input point. It does not: for a point at the origin on a
  1024x768 window the count differs from 10.
\<close>

theorem geometry_not_n_plus_two:
  "length (emitted_vertices (1024, 768) (Some (Vec4 0 0 0 1))) = 15 \<and>
   length (emitted_vertices (1024, 768) (Some (Vec4 0 0 0 1))) \<noteq> 8 + 2"
  by (simp add: length_emitted_vertices)

text \<open>
  C1, amended: for every input point and every resolution the geometry stage runs the
  \<open>n + 2\<close> steps \<open>j = 0, \<dots>, n + 1\<close>, emits one rim vertex in each and the center vertex
  before the rim vertex of each even step. For \<open>n = 8\<close> these are \<open>10 + 5 = 15\<close> vertices,
  and the rim vertex of step \<open>n\<close> is that of step \<open>0\<close> (it closes the ring). For any order
  \<open>n\<close> the loop emits \<open>m + \<lceil>m / 2\<rceil>\<close> vertices, where \<open>m = max 0 (n + 2)\<close>.
\<close>

theorem geometry_emits_rim_and_center:
  "emitted_vertices Resolution pos =
     concat (map (\<lambda>j. (if j mod 2 = 0 then [pos] else []) @
                        [rim_vertex 0.01 8 (aspect_correction Resolution) pos j]) [0..8 + 1])
   \<and> length (emitted_vertices Resolution pos) = (8 + 2) + (8 + 2) div 2
   \<and> rim_vertex 0.01 8 (aspect_correction Resolution) pos 8 =
       rim_vertex 0.01 8 (aspect_correction Resolution) pos 0
   \<and> int (length (geom_loop_j d n xs pos 0 [])) = max 0 (n + 2) + (max 0 (n + 2) + 1) div 2"
proof -
  have "int (length (geom_loop_j d n xs pos 0 [])) = max 0 (n + 2) + (max 0 (n + 2) + 1) div 2"
    by (subst length_geom_loop_j) (simp add: max_def algebra_simps)
  then show ?thesis
    using emitted_vertices_eq [of Resolution pos] length_emitted_vertices [of Resolution pos]
      rim_closing [of "0.01" "aspect_correction Resolution" pos]
    by simp
qed

text \<open>
  C6: whatever the resolution and the position of the input point, the vertices the
  geometry stage emits for it (15, with \<open>n = 8\<close>) stay within the declared budget
  \<open>max_vertices = 96\<close>; a draw call over any buffer, with any matrix, produces 15 vertices
  for each point it draws.
\<close>

theorem emission_within_budget:
  "length (emitted_vertices Resolution pos) \<le> max_vertices
   \<and> map length (gpu_draw MVP Resolution buffer count) = replicate (min count (length buffer)) 15"
  by (simp add: length_emitted_vertices max_vertices_def gpu_draw_def map_replicate_const
      comp_def min.commute)

section \<open>The sampler\<close>

lemma generate_loop_eq:
  "0 \<le> i \<Longrightarrow>
   generate_loop pf middle std i (vs, (gseed, gk), (rseed, rk)) =
     (take (nat i) vs @
        map (\<lambda>j. sample pf middle std gseed rseed (gk + (j - nat i)) (rk + (j - nat i)))
          [nat i..<length vs],
      (gseed, gk + (length vs - nat i)), (rseed, rk + (length vs - nat i)))"
proof (induction "length vs - nat i" arbitrary: i vs gk rk)
  case 0
  then have "\<not> i < int (length vs)" by linarith
  then show ?case using 0 by (subst generate_loop.simps) simp
next
  case (Suc k)
  then have lt: "i < int (length vs)" and i0: "0 \<le> i" by linarith+
  define p where "p = sample pf middle std gseed rseed gk rk"
  have k: "k = length (vs[nat i := p]) - nat (i + 1)" using Suc.hyps(2) i0 by simp
  have i1: "0 \<le> i + 1" using i0 by simp
  have unfold: "generate_loop pf middle std i (vs, (gseed, gk), (rseed, rk)) =
      generate_loop pf middle std (i + 1) (vs[nat i := p], (gseed, Suc gk), (rseed, Suc rk))"
    using lt
    by (subst generate_loop.simps)
       (simp add: distribution_draw_def urand_def rand_def sample_def p_def Let_def)
  have n1: "nat (i + 1) = Suc (nat i)" using i0 by simp
  have lt': "nat i < length vs" using lt i0 by simp
  have tk: "take (Suc (nat i)) (vs[nat i := p]) = take (nat i) vs @ [p]"
    using lt' by (simp add: take_Suc_conv_app_nth)
  have up: "[nat i..<length vs] = nat i # [Suc (nat i)..<length vs]"
    using lt' by (simp add: upt_conv_Cons)
  have mp: "map (\<lambda>j. sample pf middle std gseed rseed (Suc gk + (j - Suc (nat i)))
                       (Suc rk + (j - Suc (nat i))))
               [Suc (nat i)..<length vs] =
            map (\<lambda>j. sample pf middle std gseed rseed (gk + (j - nat i)) (rk + (j - nat i)))
               [Suc (nat i)..<length vs]"
  proof (rule map_cong)
    fix j assume "j \<in> set [Suc (nat i)..<length vs]"
    then have "Suc (nat i) \<le> j" by simp
    then have "Suc gk + (j - Suc (nat i)) = gk + (j - nat i)"
      and "Suc rk + (j - Suc (nat i)) = rk + (j - nat i)" by linarith+
    then show "sample pf middle std gseed rseed (Suc gk + (j - Suc (nat i)))
                 (Suc rk + (j - Suc (nat i))) =
               sample pf middle std gseed rseed (gk + (j - nat i)) (rk + (j - nat i))"
      by (simp only:)
  qed simp
  have ih: "generate_loop pf middle std (i + 1) (vs[nat i := p], (gseed, Suc gk), (rseed, Suc rk)) =
      (take (Suc (nat i)) (vs[nat i := p]) @
         map (\<lambda>j. sample pf middle std gseed rseed (Suc gk + (j - Suc (nat i)))
                    (Suc rk + (j - Suc (nat i))))
           [Suc (nat i)..<length vs],
       (gseed, Suc gk + (length vs - Suc (nat i))), (rseed, Suc rk + (length vs - Suc (nat i))))"
    using Suc.hyps(1) [OF k i1] by (simp only: n1 length_list_update)
  have c1: "Suc gk + (length vs - Suc (nat i)) = gk + (length vs - nat i)"
    and c2: "Suc rk + (length vs - Suc (nat i)) = rk + (length vs - nat i)"
    using lt' by linarith+
  have ls: "(take (nat i) vs @ [p]) @
         map (\<lambda>j. sample pf middle std gseed rseed (gk + (j - nat i)) (rk + (j - nat i)))
           [Suc (nat i)..<length vs] =
        take (nat i) vs @
         map (\<lambda>j. sample pf middle std gseed rseed (gk + (j - nat i)) (rk + (j - nat i)))
           [nat i..<length vs]"
    by (subst up) (simp add: p_def)
  show ?case
    by (simp only: unfold ih tk mp c1 c2 ls)
qed

lemma length_resize: "length (resize vs n) = n"
  by (simp add: resize_def)

lemma generate_vertices_n_eq:
  assumes "0 \<le> n"
  shows "generate_vertices_n pf n st =
     Some (st\<lparr>vertices :=
                 map (\<lambda>j. sample pf 0.5 0.08 (default_seed pf) (fst (libc_rand st)) j
                            (snd (libc_rand st) + j)) [0..<nat n],
               libc_rand := (fst (libc_rand st), snd (libc_rand st) + nat n)\<rparr>)"
proof -
  obtain rseed rk where rs: "libc_rand st = (rseed, rk)" by (cases "libc_rand st")
  have "generate_loop pf 0.5 0.08 0 (resize (vertices st) (nat n), (default_seed pf, 0), (rseed, rk)) =
      (map (\<lambda>j. sample pf 0.5 0.08 (default_seed pf) rseed j (rk + j)) [0..<nat n],
       (default_seed pf, nat n), (rseed, rk + nat n))"
    by (subst generate_loop_eq) (simp_all add: length_resize)
  then show ?thesis using assms by (simp add: generate_vertices_n_def rs)
qed

lemma sample_point_at: "sample pf 0.5 0.08 (default_seed pf) 1 i i = point_at pf i"
  by (simp add: sample_def point_at_def point_radius_def point_theta_def urand_def rand_def
      Let_def)

lemma generate_vertices_initial:
  "generate_vertices pf initial_state =
     Some (initial_state\<lparr>vertices := point_buffer pf, libc_rand := (1, 100000000)\<rparr>)"
proof -
  have "generate_vertices pf initial_state =
     Some (initial_state\<lparr>vertices :=
                 map (\<lambda>j. sample pf 0.5 0.08 (default_seed pf) 1 j j) [0..<100000000],
               libc_rand := (1, 100000000)\<rparr>)"
    unfolding generate_vertices_def
    by (subst generate_vertices_n_eq) (simp_all add: initial_state_def)
  then show ?thesis by (simp only: sample_point_at point_buffer_def)
qed

lemma point_theta_eq:
  "point_theta pf i = 2 * pi * (real_of_int (rand_from_seed pf 1 i) / real_of_int (RAND_MAX pf))"
  by (simp add: point_theta_def urand_def rand_def M_PI_def)

lemma point_theta_range:
  assumes "0 < RAND_MAX pf" "0 \<le> rand_from_seed pf 1 i" "rand_from_seed pf 1 i \<le> RAND_MAX pf"
  shows "0 \<le> point_theta pf i" "point_theta pf i \<le> 2 * pi"
proof -
  let ?u = "real_of_int (rand_from_seed pf 1 i) / real_of_int (RAND_MAX pf)"
  have u0: "0 \<le> ?u" using assms by simp
  have u1: "?u \<le> 1" using assms by simp
  have "0 \<le> 2 * pi * ?u"
    by (rule mult_nonneg_nonneg [OF _ u0]) simp
  then show "0 \<le> point_theta pf i" by (simp only: point_theta_eq)
  have "2 * pi * ?u \<le> 2 * pi * 1"
    by (rule mult_left_mono [OF u1]) simp
  then show "point_theta pf i \<le> 2 * pi" by (simp only: point_theta_eq mult_1_right)
qed

lemma example_rand_range:
  "0 \<le> rand_from_seed example_platform 1 k \<and>
   rand_from_seed example_platform 1 k \<le> RAND_MAX example_platform"
proof -
  have "(16807 + int k * 48271) mod 2147483648 < 2147483648" by simp
  then show ?thesis by (simp add: example_platform_def)
qed

text \<open>
  C2, as stated: the angle of every generated point is below \<open>2\<pi>\<close>. It is not on a
  platform whose \<^verbatim>\<open>rand()\<close> returns \<open>RAND_MAX\<close>: \<^verbatim>\<open>urand()\<close> is then exactly 1 and the angle
  of that point is \<open>2\<pi>\<close>.
\<close>

theorem theta_reaches_two_pi:
  "rand_from_seed endpoint_platform 1 0 = RAND_MAX endpoint_platform \<and>
   point_theta endpoint_platform 0 = 2 * pi \<and>
   \<not> point_theta endpoint_platform 0 < 2 * pi"
  by (simp add: point_theta_eq endpoint_platform_def)

text \<open>
  C2, amended: on a platform whose \<^verbatim>\<open>rand()\<close> stays within \<open>0 \<dots> RAND_MAX\<close>, point number
  \<open>i\<close> of the generated buffer is \<open>(r \<sqdot> cos \<theta>, r \<sqdot> sin \<theta>)\<close>, where \<open>r\<close> is draw \<open>i\<close> of the
  normal distribution constructed with mean 0.5 and standard deviation 0.08 on the
  default-seeded engine, and \<open>\<theta> = 2\<pi> \<sqdot> rand() / RAND_MAX\<close> lies in the closed interval
  \<open>[0, 2\<pi>]\<close>; the end \<open>2\<pi>\<close> is reached when \<^verbatim>\<open>rand()\<close> returns \<open>RAND_MAX\<close>.
\<close>

theorem generated_point_polar:
  assumes "0 < RAND_MAX pf"
    and "\<forall>k. 0 \<le> rand_from_seed pf 1 k \<and> rand_from_seed pf 1 k \<le> RAND_MAX pf"
    and "i < 100000000"
  shows "\<exists>st'. generate_vertices pf initial_state = Some st' \<and>
           vertices st' ! i =
             (point_radius pf i * cos (point_theta pf i), point_radius pf i * sin (point_theta pf i)) \<and>
           point_radius pf i = normal_from_seed pf (default_seed pf) 0.5 0.08 i \<and>
           point_theta pf i =
             2 * pi * (real_of_int (rand_from_seed pf 1 i) / real_of_int (RAND_MAX pf)) \<and>
           0 \<le> point_theta pf i \<and> point_theta pf i \<le> 2 * pi \<and>
           (rand_from_seed pf 1 i = RAND_MAX pf \<longrightarrow> point_theta pf i = 2 * pi)"
proof -
  have nth: "point_buffer pf ! i = point_at pf i"
    using assms(3) by (simp add: point_buffer_def)
  have r: "0 \<le> rand_from_seed pf 1 i" "rand_from_seed pf 1 i \<le> RAND_MAX pf"
    using assms(2) by simp_all
  have top: "rand_from_seed pf 1 i = RAND_MAX pf \<longrightarrow> point_theta pf i = 2 * pi"
    using assms(1) by (simp add: point_theta_eq)
  show ?thesis
    using nth point_theta_range [OF assms(1) r] top
    by (simp add: generate_vertices_initial point_at_def point_radius_def point_theta_eq)
qed

theorem generated_point_polar_witness:
  "0 < RAND_MAX example_platform \<and>
   (\<forall>k. 0 \<le> rand_from_seed example_platform 1 k \<and>
        rand_from_seed example_platform 1 k \<le> RAND_MAX example_platform) \<and>
   (5::nat) < 100000000 \<and>
   (\<exists>st'. generate_vertices example_platform initial_state = Some st' \<and>
           vertices st' ! 5 =
             (point_radius example_platform 5 * cos (point_theta example_platform 5),
              point_radius example_platform 5 * sin (point_theta example_platform 5)) \<and>
           0 \<le> point_theta example_platform 5 \<and> point_theta example_platform 5 \<le> 2 * pi)"
proof -
  have h1: "0 < RAND_MAX example_platform" by (simp add: example_platform_def)
  have h2: "\<forall>k. 0 \<le> rand_from_seed example_platform 1 k \<and>
        rand_from_seed example_platform 1 k \<le> RAND_MAX example_platform"
    using example_rand_range by blast
  have h3: "(5::nat) < 100000000" by simp
  from generated_point_polar [OF h1 h2 h3] obtain st' where
    "generate_vertices example_platform initial_state = Some st'"
    "vertices st' ! 5 =
       (point_radius example_platform 5 * cos (point_theta example_platform 5),
        point_radius example_platform 5 * sin (point_theta example_platform 5))"
    "0 \<le> point_theta example_platform 5" "point_theta example_platform 5 \<le> 2 * pi"
    by (elim exE conjE)
  then show ?thesis using h1 h2 by simp
qed

text \<open>
  C3: for every point count \<open>n \<ge> 0\<close> that an \<^verbatim>\<open>int\<close> can hold, the generator returns, from
  any state, a buffer of exactly \<open>n\<close> points; for \<open>n = 0\<close> the buffer is empty; the program's
  own count gives 100,000,000 points.
\<close>

theorem generate_length:
  assumes "0 \<le> n" and "n \<le> 2147483647"
  shows "(\<exists>st'. generate_vertices_n pf n st = Some st' \<and> length (vertices st') = nat n) \<and>
         (\<exists>st'. generate_vertices_n pf 0 st = Some st' \<and> vertices st' = []) \<and>
         (\<exists>st'. generate_vertices pf st = Some st' \<and> length (vertices st') = 100000000)"
  using assms by (simp add: generate_vertices_def generate_vertices_n_eq)

theorem generate_length_witness:
  "(0::int) \<le> 3 \<and> (3::int) \<le> 2147483647 \<and>
   (\<exists>st'. generate_vertices_n example_platform 3 initial_state = Some st' \<and>
          length (vertices st') = nat 3)"
  using generate_length [of 3 example_platform initial_state] by simp

section \<open>The host program\<close>

lemma uploads_append: "uploads (a @ b) = uploads a @ uploads b"
  by (induction a rule: uploads.induct) simp_all

lemma mvp_uniforms_append: "mvp_uniforms (a @ b) = mvp_uniforms a @ mvp_uniforms b"
  by (induction a rule: mvp_uniforms.induct) simp_all

lemma resolution_uniforms_append:
  "resolution_uniforms (a @ b) = resolution_uniforms a @ resolution_uniforms b"
  by (induction a rule: resolution_uniforms.induct) simp_all

lemma initial_calls: "gl_calls initial_state = []"
  by (simp add: initial_state_def)

lemma initial_stderr: "stderr initial_state = []"
  by (simp add: initial_state_def)

subsection \<open>One frame\<close>

lemma frame_vertices: "vertices (frame inp st) = vertices st"
  by (simp add: frame_def gl_def Let_def split_def)

lemma frame_calls:
  "gl_calls (frame inp st) =
     gl_calls st @
       [GlViewport (fst (fb_size inp)) (snd (fb_size inp)), GlClear, GlUseProgram,
        GlUniformMatrix4fv (frame_mvp (fst (fb_size inp)) (snd (fb_size inp)) (time_frame inp)),
        GlUniform2i (gWidth st) (gHeight st), GlDrawArrays (length (vertices st)),
        GlfwSwapBuffers]"
  by (simp add: frame_def gl_def Let_def split_def)

subsection \<open>Callbacks and polling\<close>

lemmas callback_defs =
  key_callback_def window_size_callback_def window_refresh_callback_def
  window_close_request_def error_callback_def glfwSetWindowShouldClose_def gl_def

lemma handle_event_vertices: "vertices (handle_event st ev) = vertices st"
  by (cases ev) (simp_all add: callback_defs)

lemma handle_event_uploads: "uploads (gl_calls (handle_event st ev)) = uploads (gl_calls st)"
  by (cases ev) (simp_all add: callback_defs uploads_append)

lemma handle_event_keeps_flag: "should_close st \<Longrightarrow> should_close (handle_event st ev)"
  by (cases ev) (simp_all add: callback_defs GLFW_TRUE_def)

lemma poll_vertices: "vertices (glfwPollEvents evs st) = vertices st"
  unfolding glfwPollEvents_def
  by (induction evs arbitrary: st) (simp_all add: handle_event_vertices)

lemma poll_uploads: "uploads (gl_calls (glfwPollEvents evs st)) = uploads (gl_calls st)"
  unfolding glfwPollEvents_def
  by (induction evs arbitrary: st) (simp_all add: handle_event_uploads)

lemma poll_keeps_flag: "should_close st \<Longrightarrow> should_close (glfwPollEvents evs st)"
  unfolding glfwPollEvents_def
  by (induction evs arbitrary: st) (simp_all add: handle_event_keeps_flag)

lemma poll_sets_flag:
  assumes "ev \<in> set evs" and "\<And>st'. should_close (handle_event st' ev)"
  shows "should_close (glfwPollEvents evs st)"
proof -
  from assms(1) obtain a b where evs: "evs = a @ ev # b"
    by (auto simp: in_set_conv_decomp)
  have "should_close (handle_event (glfwPollEvents a st) ev)"
    by (rule assms(2))
  then have "should_close (glfwPollEvents b (handle_event (glfwPollEvents a st) ev))"
    by (rule poll_keeps_flag)
  then show ?thesis by (simp add: evs glfwPollEvents_def)
qed

lemma key_other: "key \<noteq> GLFW_KEY_ESCAPE \<Longrightarrow> key_callback st key scancode action mods = st"
  by (simp add: key_callback_def)

lemma key_escape:
  "key_callback st GLFW_KEY_ESCAPE scancode GLFW_PRESS mods = st\<lparr>should_close := True\<rparr>"
  by (simp add: key_callback_def glfwSetWindowShouldClose_def GLFW_TRUE_def)

lemma close_request: "window_close_request st = st\<lparr>should_close := True\<rparr>"
  by (simp add: window_close_request_def glfwSetWindowShouldClose_def GLFW_TRUE_def)

subsection \<open>The loop\<close>

lemma iteration_vertices: "vertices (iteration inp st) = vertices st"
  by (simp add: iteration_def poll_vertices frame_vertices)

lemma iteration_uploads: "uploads (gl_calls (iteration inp st)) = uploads (gl_calls st)"
  by (simp add: iteration_def poll_uploads frame_calls uploads_append)

lemma iteration_escape:
  assumes "KeyEvent GLFW_KEY_ESCAPE scancode GLFW_PRESS mods \<in> set (events inp)"
  shows "should_close (iteration inp st)"
  unfolding iteration_def
  by (rule poll_sets_flag [OF assms]) (simp add: key_escape)

lemma iteration_close:
  assumes "WindowCloseEvent \<in> set (events inp)"
  shows "should_close (iteration inp st)"
  unfolding iteration_def
  by (rule poll_sets_flag [OF assms]) (simp add: close_request)

lemma main_loop_vertices: "vertices (snd (main_loop st inps)) = vertices st"
  by (induction inps arbitrary: st) (simp_all add: iteration_vertices)

lemma main_loop_uploads: "uploads (gl_calls (snd (main_loop st inps))) = uploads (gl_calls st)"
  by (induction inps arbitrary: st) (simp_all add: iteration_uploads)

lemma main_loop_closed: "should_close st \<Longrightarrow> main_loop st inps = (Exited EXIT_SUCCESS, st)"
  by (cases inps) simp_all

lemma main_loop_exits_after:
  assumes "\<not> should_close st" and "should_close (iteration inp st)"
  shows "main_loop st (inp # rest) = (Exited EXIT_SUCCESS, iteration inp st)"
  using assms by (simp add: main_loop_closed)

subsection \<open>Setup\<close>

lemma compile_shader_cases:
  "compile_shader env ty src st =
     (if fst (gl_compile env ty src) = GL_FALSE
      then Inl (Exited (- 1),
                (gl [GlCreateShader ty, GlShaderSource ty src, GlCompileShader ty] st)
                  \<lparr>stderr := stderr st @
                     (case ty of GL_VERTEX_SHADER \<Rightarrow> ''vertex''
                              | GL_FRAGMENT_SHADER \<Rightarrow> ''fragment''
                              | _ \<Rightarrow> ''unknown type'') @
                     '': '' @ snd (gl_compile env ty src) @ ''\<newline>''\<rparr>)
      else Inr (gl [GlCreateShader ty, GlShaderSource ty src, GlCompileShader ty] st))"
  by (simp add: compile_shader_def die_def Let_def split_def gl_def)

lemma main_setup_vertices:
  "vertices (state_after_setup (main_setup pf env)) = point_buffer pf"
  by (simp add: main_setup_def generate_vertices_initial compile_shader_cases
      state_after_setup_def gl_def Let_def)

lemma main_setup_uploads:
  "glfw_init_ok env \<Longrightarrow> window_ok env \<Longrightarrow>
   uploads (gl_calls (state_after_setup (main_setup pf env))) = [point_buffer pf]"
  by (simp add: main_setup_def generate_vertices_initial compile_shader_cases
      state_after_setup_def gl_def Let_def initial_calls uploads_append)

lemma main_vertices: "vertices (snd (main pf env)) = point_buffer pf"
proof (cases "main_setup pf env")
  case (Inl dead)
  then show ?thesis
    using main_setup_vertices [of pf env]
    by (simp add: main_def state_after_setup_def split_def)
next
  case (Inr st)
  then show ?thesis
    using main_setup_vertices [of pf env]
    by (simp add: main_def state_after_setup_def main_loop_vertices)
qed

lemma main_uploads:
  "uploads (gl_calls (snd (main pf env))) =
     uploads (gl_calls (state_after_setup (main_setup pf env)))"
proof (cases "main_setup pf env")
  case (Inl dead)
  then show ?thesis by (simp add: main_def state_after_setup_def split_def)
next
  case (Inr st)
  then show ?thesis by (simp add: main_def state_after_setup_def main_loop_uploads)
qed

lemma main_geometry_broken:
  "main example_platform geometry_broken_env =
     (Exited (- 1),
      (gl [GlEnable_BLEND, GlBlendFunc, GlGenBuffers, GlBindBuffer,
           GlBufferData (point_buffer example_platform),
           GlCreateShader GL_VERTEX_SHADER, GlShaderSource GL_VERTEX_SHADER vertex_shader_text,
           GlCompileShader GL_VERTEX_SHADER,
           GlCreateShader GL_GEOMETRY_SHADER, GlShaderSource GL_GEOMETRY_SHADER geom_shader_text,
           GlCompileShader GL_GEOMETRY_SHADER]
        (initial_state\<lparr>vertices := point_buffer example_platform,
                         libc_rand := (1, 100000000)\<rparr>))
       \<lparr>stderr := ''unknown type: 0(1) : error C0201: unsupported version 430\<newline>''\<rparr>)"
  by (simp add: main_def main_setup_def generate_vertices_initial compile_shader_cases
      geometry_broken_env_def GL_FALSE_def gl_def Let_def initial_stderr)

subsection \<open>The transform\<close>

lemma ortho_projection:
  "ratio \<noteq> 0 \<Longrightarrow> mat4x4_ortho (- ratio) ratio (- 1) 1 1 (- 1) = Some (Projection ratio)"
  by (simp add: mat4x4_ortho_def fdiv_def Projection_def)

lemma rotate_identity: "mat4x4_rotate_Z mat4x4_identity t = Rotation_Z t"
  by (simp add: mat4x4_rotate_Z_def mat4x4_identity_def Rotation_Z_def Let_def)

lemma rotation_zero: "Rotation_Z 0 = mat4x4_identity"
  by (simp add: Rotation_Z_def mat4x4_identity_def)

lemma mul_identity: "mat4x4_mul (Projection ratio) mat4x4_identity = Projection ratio"
  by (simp add: Projection_def mat4x4_identity_def)

lemma frame_mvp_structure:
  "frame_mvp width height t = do {
     ratio \<leftarrow> fdiv (real_of_int width) (real_of_int height);
     p \<leftarrow> mat4x4_ortho (- ratio) ratio (- 1) 1 1 (- 1);
     Some (mat4x4_mul p (Rotation_Z t))
   }"
  by (simp add: frame_mvp_def rotate_identity Let_def)

lemma frame_mvp_eq:
  assumes "width \<noteq> 0" and "height \<noteq> 0"
  shows "frame_mvp width height t =
     Some (mat4x4_mul (Projection (real_of_int width / real_of_int height)) (Rotation_Z t))"
proof -
  have "real_of_int width / real_of_int height \<noteq> 0" using assms by simp
  then show ?thesis
    using assms by (simp add: frame_mvp_structure fdiv_def ortho_projection)
qed

subsection \<open>The aspect correction\<close>

lemma rim_vertex_no_aspect: "rim_vertex d n None pos j = None"
  by (simp add: rim_vertex_def split: option.split)

lemma aspect_correction_zero: "aspect_correction (0, height) = None"
  by (simp add: aspect_correction_def fdiv_def)

lemma aspect_correction_nonzero:
  "rx \<noteq> 0 \<Longrightarrow> aspect_correction (rx, ry) = Some (real_of_int ry / real_of_int rx)"
  by (simp add: aspect_correction_def fdiv_def)

lemma rim_vertex_defined:
  "rx \<noteq> 0 \<Longrightarrow> rim_vertex 0.01 8 (aspect_correction (rx, ry)) (Some p) j \<noteq> None"
  by (simp add: rim_vertex_def aspect_correction_nonzero fdiv_def M_PI_def Let_def)

lemma emitted_vertices_zero_width:
  "emitted_vertices (0, height) pos = concat (replicate 5 [pos, None, None])"
  by (simp add: emitted_vertices_eq upto_0_9 aspect_correction_zero rim_vertex_no_aspect
      numeral_eq_Suc)

section \<open>Properties of the host program\<close>

text \<open>
  C4: when the compilation of a shader stage fails, the program writes a diagnostic that
  names the stage (vertex, fragment or geometry) with the compiler's text, and ends with
  a non-zero exit status. The code does so for the vertex and the fragment stage. For the
  geometry stage it ends with status 255 too, but its diagnostic reads \<open>unknown type\<close>:
  the run below, on a driver that rejects the geometry shader, and the three stages
  compiled one by one on a driver that rejects every shader.
\<close>

theorem geometry_failure_reports_unknown_type:
  "fst (main example_platform geometry_broken_env) = Exited (- 1)
   \<and> exit_status (- 1) = 255
   \<and> stderr (snd (main example_platform geometry_broken_env)) =
       ''unknown type: 0(1) : error C0201: unsupported version 430\<newline>''
   \<and> died (compile_shader broken_shader_env GL_GEOMETRY_SHADER geom_shader_text initial_state) =
       Some (255, ''unknown type: 0(1) : error C0201: unsupported version 430\<newline>'')
   \<and> died (compile_shader broken_shader_env GL_VERTEX_SHADER vertex_shader_text initial_state) =
       Some (255, ''vertex: 0(1) : error C0201: unsupported version 430\<newline>'')
   \<and> died (compile_shader broken_shader_env GL_FRAGMENT_SHADER fragment_shader_text initial_state) =
       Some (255, ''fragment: 0(1) : error C0201: unsupported version 430\<newline>'')"
  by (simp add: main_geometry_broken exit_status_def died_def compile_shader_cases
      broken_shader_env_def GL_FALSE_def gl_def initial_stderr)

text \<open>
  C5, as stated: on every frame the matrix uniform is the projection times the rotation
  about Z by the clock reading. It is not on a frame whose framebuffer has a zero side,
  as that of a minimised window has: the code divides by the height, and by the extent
  \<open>2 \<sqdot> width / height\<close> of the projection box, so the matrix of such a frame has no
  value, at \<open>t = 0\<close> as at any other time.
\<close>

theorem zero_framebuffer_has_no_transform:
  "mvp_uniforms (gl_calls (frame minimised_input initial_state)) = [None]
   \<and> frame_mvp 0 0 1 = None
   \<and> frame_mvp 0 480 1 \<noteq>
       Some (mat4x4_mul (Projection (real_of_int 0 / real_of_int 480)) (Rotation_Z 1))
   \<and> frame_mvp 1024 0 0 \<noteq> Some (Projection (real_of_int 1024 / real_of_int 0))"
proof -
  have a: "frame_mvp 0 0 1 = None"
    by (simp add: frame_mvp_def fdiv_def)
  have b: "frame_mvp 0 480 1 = None"
    by (simp add: frame_mvp_def fdiv_def mat4x4_ortho_def)
  have c: "frame_mvp 1024 0 0 = None"
    by (simp add: frame_mvp_def fdiv_def)
  have d: "mvp_uniforms (gl_calls (frame minimised_input initial_state)) = [None]"
    by (simp add: frame_calls initial_calls minimised_input_def a)
  show ?thesis
    by (simp only: a b c d) simp
qed

text \<open>
  C5, amended: every frame sets the matrix uniform once, to the matrix computed from the
  framebuffer size and the reading \<open>t\<close> of the clock, in seconds, taken in that frame. On
  every frame whose framebuffer has non-zero width and height that matrix is the
  orthographic projection for the aspect ratio \<open>width / height\<close> times the rotation about
  Z by \<open>t\<close> radians; at \<open>t = 0\<close> the rotation is the identity and the matrix is the
  projection alone.
\<close>

theorem frame_transform:
  assumes "width \<noteq> 0" and "height \<noteq> 0"
  shows "mvp_uniforms (gl_calls (frame inp st)) =
       mvp_uniforms (gl_calls st) @
         [frame_mvp (fst (fb_size inp)) (snd (fb_size inp)) (time_frame inp)]
    \<and> frame_mvp w h t = do {
         ratio \<leftarrow> fdiv (real_of_int w) (real_of_int h);
         p \<leftarrow> mat4x4_ortho (- ratio) ratio (- 1) 1 1 (- 1);
         Some (mat4x4_mul p (Rotation_Z t))
       }
    \<and> mat4x4_ortho (- (real_of_int width / real_of_int height))
         (real_of_int width / real_of_int height) (- 1) 1 1 (- 1) =
         Some (Projection (real_of_int width / real_of_int height))
    \<and> frame_mvp width height t =
         Some (mat4x4_mul (Projection (real_of_int width / real_of_int height)) (Rotation_Z t))
    \<and> frame_mvp width height 0 =
         Some (mat4x4_mul (Projection (real_of_int width / real_of_int height)) mat4x4_identity)
    \<and> Rotation_Z 0 = mat4x4_identity
    \<and> frame_mvp width height 0 = Some (Projection (real_of_int width / real_of_int height))"
proof -
  have r: "real_of_int width / real_of_int height \<noteq> 0"
    using assms by simp
  have a: "mvp_uniforms (gl_calls (frame inp st)) =
       mvp_uniforms (gl_calls st) @
         [frame_mvp (fst (fb_size inp)) (snd (fb_size inp)) (time_frame inp)]"
    by (simp add: frame_calls mvp_uniforms_append)
  have b: "frame_mvp width height 0 =
      Some (mat4x4_mul (Projection (real_of_int width / real_of_int height)) mat4x4_identity)"
    by (simp only: frame_mvp_eq [OF assms] rotation_zero)
  have c: "frame_mvp width height 0 = Some (Projection (real_of_int width / real_of_int height))"
    by (simp only: b mul_identity)
  show ?thesis
    using a frame_mvp_structure [of w h t] ortho_projection [OF r] frame_mvp_eq [OF assms, of t]
      b rotation_zero c
    by (intro conjI)
qed

theorem frame_transform_witness:
  "(1024::int) \<noteq> 0 \<and> (768::int) \<noteq> 0 \<and>
   frame_mvp 1024 768 1 =
     Some (mat4x4_mul (Projection (real_of_int 1024 / real_of_int 768)) (Rotation_Z 1)) \<and>
   frame_mvp 1024 768 0 = Some (Projection (real_of_int 1024 / real_of_int 768))"
proof -
  have h1: "(1024::int) \<noteq> 0" and h2: "(768::int) \<noteq> 0" by simp_all
  note t = frame_transform [OF h1 h2, of escape_input initial_state 1024 768 1]
  from t have a: "frame_mvp 1024 768 1 =
     Some (mat4x4_mul (Projection (real_of_int 1024 / real_of_int 768)) (Rotation_Z 1))"
    by (elim conjE)
  from t have b: "frame_mvp 1024 768 0 = Some (Projection (real_of_int 1024 / real_of_int 768))"
    by (elim conjE)
  show ?thesis using h1 h2 a b by (intro conjI)
qed

text \<open>
  C7: in a run in which GLFW and the window come up, the part of \<^verbatim>\<open>main\<close> before the frame
  loop uploads the generated buffer, once. A frame, an event callback, an iteration and
  the whole loop leave the host buffer as it is and add no upload, so at the end of the run
  the one upload of the generated buffer is still the only one and the host buffer is the
  generated one.
\<close>

theorem upload_once:
  assumes "glfw_init_ok env" and "window_ok env"
  shows "uploads (gl_calls (state_after_setup (main_setup pf env))) = [point_buffer pf]
    \<and> vertices (state_after_setup (main_setup pf env)) = point_buffer pf
    \<and> vertices (frame inp st) = vertices st
    \<and> uploads (gl_calls (frame inp st)) = uploads (gl_calls st)
    \<and> vertices (handle_event st ev) = vertices st
    \<and> uploads (gl_calls (handle_event st ev)) = uploads (gl_calls st)
    \<and> vertices (iteration inp st) = vertices st
    \<and> uploads (gl_calls (iteration inp st)) = uploads (gl_calls st)
    \<and> vertices (snd (main_loop st inps)) = vertices st
    \<and> uploads (gl_calls (snd (main_loop st inps))) = uploads (gl_calls st)
    \<and> vertices (snd (main pf env)) = point_buffer pf
    \<and> uploads (gl_calls (snd (main pf env))) = [point_buffer pf]"
  using assms
  by (simp add: main_setup_uploads main_setup_vertices frame_vertices frame_calls uploads_append
      handle_event_vertices handle_event_uploads iteration_vertices iteration_uploads
      main_loop_vertices main_loop_uploads main_vertices main_uploads)

theorem upload_once_witness:
  "glfw_init_ok example_env \<and> window_ok example_env \<and>
   uploads (gl_calls (snd (main example_platform example_env))) = [point_buffer example_platform] \<and>
   vertices (snd (main example_platform example_env)) = point_buffer example_platform"
  using upload_once [of example_env example_platform]
  by (simp add: example_env_def)

text \<open>
  C8: the generated buffer is the same in every run on a platform. Whatever two runs read
  from outside (whether GLFW and the window come up, what the driver's compiler answers,
  the clock, the framebuffer sizes, the events), their point buffers are equal: the
  buffer of draws 0 to 99,999,999 of the default-seeded engine and of calls 0 to
  99,999,999 of \<^verbatim>\<open>rand()\<close> under the seed 1 of a fresh process, which the generator leaves
  as it is.
\<close>

theorem generation_deterministic:
  "vertices (snd (main pf env1)) = vertices (snd (main pf env2))
   \<and> vertices (snd (main pf env1)) = point_buffer pf
   \<and> generate_vertices pf initial_state =
       Some (initial_state\<lparr>vertices := point_buffer pf, libc_rand := (1, 100000000)\<rparr>)"
  by (simp add: main_vertices generate_vertices_initial)

text \<open>
  C9: the resize callback stores a width of 0 as it stores any other; the next frame
  passes the stored pair to the \<open>Resolution\<close> uniform; the geometry shader divides by
  \<open>Resolution.x\<close> without a test, so with \<open>Resolution.x = 0\<close> the aspect correction and
  every rim vertex have no value, and with \<open>Resolution.x \<noteq> 0\<close> the correction is
  \<open>Resolution.y / Resolution.x\<close> and the rim vertices of a placed point have values.
\<close>

theorem zero_width_reaches_division:
  "window_size_callback st 0 height = st\<lparr>gWidth := 0, gHeight := height, need_redraw := True\<rparr>
   \<and> resolution_uniforms (gl_calls (frame inp st)) =
       resolution_uniforms (gl_calls st) @ [(gWidth st, gHeight st)]
   \<and> resolution_uniforms (gl_calls (frame inp (window_size_callback st 0 height))) =
       resolution_uniforms (gl_calls st) @ [(0, height)]
   \<and> aspect_correction (0, height) = None
   \<and> rim_vertex d n (aspect_correction (0, height)) pos j = None
   \<and> emitted_vertices (0, height) pos = concat (replicate 5 [pos, None, None])
   \<and> (rx \<noteq> 0 \<longrightarrow>
        aspect_correction (rx, ry) = Some (real_of_int ry / real_of_int rx) \<and>
        rim_vertex 0.01 8 (aspect_correction (rx, ry)) (Some p) j \<noteq> None)"
proof -
  have a: "window_size_callback st 0 height =
      st\<lparr>gWidth := 0, gHeight := height, need_redraw := True\<rparr>"
    by (simp add: window_size_callback_def)
  have b: "resolution_uniforms (gl_calls (frame inp st')) =
      resolution_uniforms (gl_calls st') @ [(gWidth st', gHeight st')]" for st'
    by (simp add: frame_calls resolution_uniforms_append)
  have c: "resolution_uniforms (gl_calls (frame inp (window_size_callback st 0 height))) =
       resolution_uniforms (gl_calls st) @ [(0, height)]"
    by (simp add: b) (simp add: window_size_callback_def)
  have d: "rx \<noteq> 0 \<longrightarrow>
        aspect_correction (rx, ry) = Some (real_of_int ry / real_of_int rx) \<and>
        rim_vertex 0.01 8 (aspect_correction (rx, ry)) (Some p) j \<noteq> None"
    using aspect_correction_nonzero rim_vertex_defined by blast
  have e: "rim_vertex d n (aspect_correction (0, height)) pos j = None"
    by (simp only: aspect_correction_zero rim_vertex_no_aspect)
  show ?thesis
    using a b [of st] c aspect_correction_zero [of height] e
      emitted_vertices_zero_width [of height pos] d
    by (intro conjI)
qed

theorem zero_width_reaches_division_witness:
  "(640::int) \<noteq> 0 \<and>
   aspect_correction (640, 480) = Some (real_of_int 480 / real_of_int 640) \<and>
   rim_vertex 0.01 8 (aspect_correction (640, 480)) (Some (Vec4 0 0 0 1)) 3 \<noteq> None"
proof -
  have h: "(640::int) \<noteq> 0" by simp
  note t = zero_width_reaches_division [where st = initial_state and height = 480
      and inp = escape_input and d = "0.01" and n = 8 and pos = None and j = 3
      and rx = 640 and ry = 480 and p = "Vec4 0 0 0 1"]
  from t have "(640::int) \<noteq> 0 \<longrightarrow>
        aspect_correction (640, 480) = Some (real_of_int 480 / real_of_int 640) \<and>
        rim_vertex 0.01 8 (aspect_correction (640, 480)) (Some (Vec4 0 0 0 1)) 3 \<noteq> None"
    by (elim conjE)
  with h show ?thesis by (intro conjI) (elim impE conjE; assumption)+
qed

text \<open>
  C10: a press of Escape sets the close flag, exactly as the close request of the window
  system does. With the flag set the loop is left and the process exits with
  \<open>EXIT_SUCCESS\<close>, status 0: the iteration whose events hold the press of Escape, or the
  close request, is the last one. A key event for any other key returns the state
  unchanged.
\<close>

theorem escape_closes:
  "key_callback st GLFW_KEY_ESCAPE scancode GLFW_PRESS mods = st\<lparr>should_close := True\<rparr>
   \<and> window_close_request st = key_callback st GLFW_KEY_ESCAPE scancode GLFW_PRESS mods
   \<and> (should_close st \<longrightarrow> main_loop st inps = (Exited EXIT_SUCCESS, st))
   \<and> (\<not> should_close st \<and> KeyEvent GLFW_KEY_ESCAPE scancode GLFW_PRESS mods \<in> set (events inp)
        \<longrightarrow> main_loop st (inp # rest) = (Exited EXIT_SUCCESS, iteration inp st))
   \<and> (\<not> should_close st \<and> WindowCloseEvent \<in> set (events inp)
        \<longrightarrow> main_loop st (inp # rest) = (Exited EXIT_SUCCESS, iteration inp st))
   \<and> EXIT_SUCCESS = 0 \<and> exit_status EXIT_SUCCESS = 0
   \<and> (key \<noteq> GLFW_KEY_ESCAPE \<longrightarrow> key_callback st key scancode action mods = st)"
proof -
  have a: "should_close st \<longrightarrow> main_loop st inps = (Exited EXIT_SUCCESS, st)"
    by (simp add: main_loop_closed)
  have b: "\<not> should_close st \<and>
      KeyEvent GLFW_KEY_ESCAPE scancode GLFW_PRESS mods \<in> set (events inp)
        \<longrightarrow> main_loop st (inp # rest) = (Exited EXIT_SUCCESS, iteration inp st)"
    using main_loop_exits_after iteration_escape by blast
  have c: "\<not> should_close st \<and> WindowCloseEvent \<in> set (events inp)
        \<longrightarrow> main_loop st (inp # rest) = (Exited EXIT_SUCCESS, iteration inp st)"
    using main_loop_exits_after iteration_close by blast
  have d: "key \<noteq> GLFW_KEY_ESCAPE \<longrightarrow> key_callback st key scancode action mods = st"
    by (simp add: key_other)
  have e: "EXIT_SUCCESS = 0 \<and> exit_status EXIT_SUCCESS = 0"
    by (simp add: EXIT_SUCCESS_def exit_status_def)
  have f: "window_close_request st = key_callback st GLFW_KEY_ESCAPE scancode GLFW_PRESS mods"
    by (simp add: key_escape close_request)
  have g: "key_callback st GLFW_KEY_ESCAPE scancode GLFW_PRESS mods = st\<lparr>should_close := True\<rparr>"
    by (rule key_escape)
  show ?thesis
    using g f a b c e d by blast
qed

theorem escape_closes_witness:
  "should_close (initial_state\<lparr>should_close := True\<rparr>)
   \<and> main_loop (initial_state\<lparr>should_close := True\<rparr>) [escape_input] =
       (Exited EXIT_SUCCESS, initial_state\<lparr>should_close := True\<rparr>)
   \<and> \<not> should_close initial_state
   \<and> KeyEvent GLFW_KEY_ESCAPE 9 GLFW_PRESS 0 \<in> set (events escape_input)
   \<and> main_loop initial_state [escape_input, escape_input] =
       (Exited EXIT_SUCCESS, iteration escape_input initial_state)
   \<and> (65::int) \<noteq> GLFW_KEY_ESCAPE
   \<and> key_callback initial_state 65 38 GLFW_PRESS 0 = initial_state"
proof -
  have a: "should_close (initial_state\<lparr>should_close := True\<rparr>)" by simp
  have b: "\<not> should_close initial_state" by (simp add: initial_state_def)
  have c: "KeyEvent GLFW_KEY_ESCAPE 9 GLFW_PRESS 0 \<in> set (events escape_input)"
    by (simp add: escape_input_def)
  have d: "(65::int) \<noteq> GLFW_KEY_ESCAPE" by (simp add: GLFW_KEY_ESCAPE_def)
  note t1 = escape_closes [where st = "initial_state\<lparr>should_close := True\<rparr>"
      and scancode = 9 and mods = 0 and inps = "[escape_input]" and inp = escape_input
      and rest = "[escape_input]" and key = 65 and action = GLFW_PRESS]
  note t2 = escape_closes [where st = initial_state and scancode = 9 and mods = 0
      and inps = "[escape_input]" and inp = escape_input and rest = "[escape_input]"
      and key = 65 and action = GLFW_PRESS]
  note t3 = escape_closes [where st = initial_state and scancode = 38 and mods = 0
      and inps = "[escape_input]" and inp = escape_input and rest = "[escape_input]"
      and key = 65 and action = GLFW_PRESS]
  from t1 have "should_close (initial_state\<lparr>should_close := True\<rparr>) \<longrightarrow>
      main_loop (initial_state\<lparr>should_close := True\<rparr>) [escape_input] =
       (Exited EXIT_SUCCESS, initial_state\<lparr>should_close := True\<rparr>)"
    by (elim conjE)
  with a have e: "main_loop (initial_state\<lparr>should_close := True\<rparr>) [escape_input] =
       (Exited EXIT_SUCCESS, initial_state\<lparr>should_close := True\<rparr>)"
    by (rule rev_mp)
  from t2 have "\<not> should_close initial_state \<and>
      KeyEvent GLFW_KEY_ESCAPE 9 GLFW_PRESS 0 \<in> set (events escape_input) \<longrightarrow>
      main_loop initial_state [escape_input, escape_input] =
       (Exited EXIT_SUCCESS, iteration escape_input initial_state)"
    by (elim conjE)
  moreover have "\<not> should_close initial_state \<and>
      KeyEvent GLFW_KEY_ESCAPE 9 GLFW_PRESS 0 \<in> set (events escape_input)"
    using b c by (rule conjI)
  ultimately have f: "main_loop initial_state [escape_input, escape_input] =
       (Exited EXIT_SUCCESS, iteration escape_input initial_state)"
    by (rule mp)
  from t3 have "(65::int) \<noteq> GLFW_KEY_ESCAPE \<longrightarrow>
      key_callback initial_state 65 38 GLFW_PRESS 0 = initial_state"
    by (elim conjE)
  with d have g: "key_callback initial_state 65 38 GLFW_PRESS 0 = initial_state"
    by (rule rev_mp)
  show ?thesis using a e b c f d g by (intro conjI)
qed

end
